theory Spec2Isabelle
  imports Complex_Main "HOL-Library.Multiset"
begin

section \<open>Numbers\<close>

text \<open>
  Python floats are modelled as exact rationals. The builtin \<open>round(x, n)\<close> rounds to
  \<open>n\<close> decimals, ties going to the even neighbour.
\<close>

definition round_half_even :: "rat \<Rightarrow> int" where
  "round_half_even q =
     (let f = \<lfloor>q\<rfloor>; d = q - of_int f
      in if d < 1 / 2 then f
         else if 1 / 2 < d then f + 1
         else if even f then f else f + 1)"

definition py_round :: "rat \<Rightarrow> nat \<Rightarrow> rat" where
  "py_round x n = of_int (round_half_even (x * 10 ^ n)) / 10 ^ n"

section \<open>Conviction fusion (scripts/batch\_conviction\_score.py)\<close>

definition W_DS :: rat where "W_DS = 35 / 100"
definition W_MC :: rat where "W_MC = 40 / 100"
definition MC_CAP :: rat where "MC_CAP = 7"
definition VAC_BONUS_MAX :: rat where "VAC_BONUS_MAX = 25 / 10"

definition clamp :: "rat \<Rightarrow> rat \<Rightarrow> rat \<Rightarrow> rat" where
  "clamp x lo hi = max lo (min x hi)"

text \<open>Truthiness of an optional string (\<open>None\<close> and the empty string are false).\<close>

definition truthy_str :: "string option \<Rightarrow> bool" where
  "truthy_str s = (case s of None \<Rightarrow> False | Some t \<Rightarrow> t \<noteq> [])"

definition truthy_bool :: "bool option \<Rightarrow> bool" where
  "truthy_bool b = (case b of None \<Rightarrow> False | Some v \<Rightarrow> v)"

definition ds_component :: "rat option \<Rightarrow> rat option" where
  "ds_component ds_composite = map_option (\<lambda>d. clamp (d / 10) 0 1) ds_composite"

definition mc_component :: "rat \<Rightarrow> int option \<Rightarrow> rat option" where
  "mc_component mc_raw mc_count =
     (if mc_count = None \<or> mc_count = Some 0 then None
      else Some (clamp (mc_raw / MC_CAP) 0 1))"

definition vacancy_bonus :: "bool option \<Rightarrow> rat option \<Rightarrow> string option \<Rightarrow> rat" where
  "vacancy_bonus flag_vacancy vac_conf usps_error =
     (if truthy_bool flag_vacancy \<and> \<not> truthy_str usps_error
      then VAC_BONUS_MAX * clamp (case vac_conf of None \<Rightarrow> 8 / 10 | Some c \<Rightarrow> c) 0 1
      else 0)"

definition or_zero :: "rat option \<Rightarrow> rat" where
  "or_zero c = (case c of None \<Rightarrow> 0 | Some v \<Rightarrow> v)"

text \<open>
  \<open>compute_conviction\<close> returns the tuple
  \<open>(conviction_score, base_score, vacancy_bonus, components)\<close>.
\<close>

definition compute_conviction ::
  "rat option \<Rightarrow> rat \<Rightarrow> int option \<Rightarrow> bool option \<Rightarrow> rat option \<Rightarrow> string option
   \<Rightarrow> rat option \<times> rat option \<times> rat \<times> string list" where
  "compute_conviction ds_composite mc_raw mc_count flag_vacancy vac_conf usps_error =
     (let ds_comp = ds_component ds_composite;
          mc_comp = mc_component mc_raw mc_count;
          vac_bonus = vacancy_bonus flag_vacancy vac_conf usps_error;
          base_sum = (if ds_comp \<noteq> None then W_DS else 0) + (if mc_comp \<noteq> None then W_MC else 0)
      in if base_sum = 0 then (None, None, py_round vac_bonus 2, [])
         else
           (let base = 10 * (W_DS * or_zero ds_comp + W_MC * or_zero mc_comp) / base_sum;
                score = py_round (clamp (base + vac_bonus) 0 10) 2;
                components =
                  (if ds_comp \<noteq> None then [''DS''] else []) @
                  (if mc_comp \<noteq> None then [''MC''] else []) @
                  (if 0 < vac_bonus then [''VAC''] else [])
            in (Some score, Some (py_round base 2), py_round vac_bonus 2, components)))"

definition conviction_score ::
  "rat option \<times> rat option \<times> rat \<times> string list \<Rightarrow> rat option" where
  "conviction_score r = fst r"

text \<open>The vacancy condition of the fusion formula: the flag is set and no USPS error is recorded.\<close>

definition vacancy_applies :: "bool option \<Rightarrow> string option \<Rightarrow> bool" where
  "vacancy_applies flag_vacancy usps_error = (truthy_bool flag_vacancy \<and> \<not> truthy_str usps_error)"

section \<open>NDVI slope (src/naip/baseline.py)\<close>

datatype py_error =
    ZeroDivisionError | KeyError string | TypeError | ValueError | DataError string
  | OperationalError | OSError | JSONDecodeError

text \<open>Python's true division raises on a zero divisor.\<close>

definition py_truediv :: "rat \<Rightarrow> rat \<Rightarrow> py_error + rat" where
  "py_truediv a b = (if b = 0 then Inl ZeroDivisionError else Inr (a / b))"

text \<open>
  \<open>compute_ndvi_slope\<close>: the points are \<open>(year, ndvi)\<close> pairs. The result is
  \<open>Inl\<close> an exception, \<open>Inr None\<close> for Python's \<open>None\<close>, \<open>Inr (Some s)\<close> for a float.
\<close>

definition compute_ndvi_slope :: "(rat \<times> rat) list \<Rightarrow> py_error + rat option" where
  "compute_ndvi_slope points =
     (if length points < 2 then Inr None
      else
        (let n = of_nat (length points);
             sum_x = sum_list (map (\<lambda>p. fst p) points);
             sum_y = sum_list (map (\<lambda>p. snd p) points);
             sum_xy = sum_list (map (\<lambda>p. fst p * snd p) points);
             sum_x2 = sum_list (map (\<lambda>p. fst p ^ 2) points);
             denom = n * sum_x2 - sum_x ^ 2
         in if denom = 0 then Inr (Some 0)
            else (case py_truediv (n * sum_xy - sum_x * sum_y) denom of
                    Inl e \<Rightarrow> Inl e
                  | Inr slope \<Rightarrow> Inr (Some (py_round slope 6)))))"



section \<open>Vegetation overgrowth flag (src/analysis/flags.py)\<close>

definition NDVI_OVERGROWTH_MODERATE :: rat where "NDVI_OVERGROWTH_MODERATE = 50 / 100"
definition NDVI_OVERGROWTH_STRONG :: rat where "NDVI_OVERGROWTH_STRONG = 65 / 100"
definition NDVI_OVERGROWTH_CHANGE :: rat where "NDVI_OVERGROWTH_CHANGE = 15 / 100"

text \<open>
  The two input dictionaries, with the keys the evaluator reads. A key that is absent and a
  key bound to \<open>None\<close> read the same through \<open>dict.get\<close>; an empty dictionary is falsy in
  Python and reads as all keys absent, which never fires.
\<close>

record naip_input =
  naip_errors :: "string list"
  current_ndvi :: "rat option"
  mean_historical_ndvi :: "rat option"

record sentinel_input =
  sentinel_errors :: "string list"
  trend_slope :: "rat option"
  trend_direction :: "string option"
  latest_ndvi :: "rat option"

datatype ev_val = EvNum rat | EvStr string

type_synonym evidence = "string \<rightharpoonup> ev_val"

record flag_result =
  flag :: bool
  confidence :: rat
  signal_code :: string
  evidence :: evidence

text \<open>
  The NAIP block of \<open>evaluate_vegetation_overgrowth\<close>: it sets \<open>naip_flag\<close>,
  \<open>naip_conf\<close> and adds to the evidence dictionary.
\<close>

definition naip_baseline_check :: "naip_input option \<Rightarrow> evidence \<Rightarrow> bool \<times> rat \<times> evidence" where
  "naip_baseline_check naip ev =
     (case naip of
        None \<Rightarrow> (False, 0, ev)
      | Some n \<Rightarrow>
          if naip_errors n \<noteq> [] then (False, 0, ev)
          else
            (case current_ndvi n of
               None \<Rightarrow> (False, 0, ev)
             | Some current \<Rightarrow>
                 if NDVI_OVERGROWTH_STRONG < current then
                   (case mean_historical_ndvi n of
                      Some hist_mean \<Rightarrow>
                        if hist_mean + NDVI_OVERGROWTH_CHANGE < current then
                          (True, min ((current - hist_mean) / (3 / 10)) 1,
                           ev(''naip_current_ndvi'' \<mapsto> EvNum current,
                              ''naip_historical_mean'' \<mapsto> EvNum hist_mean,
                              ''naip_delta'' \<mapsto> EvNum (py_round (current - hist_mean) 4),
                              ''tier'' \<mapsto> EvStr ''strong''))
                        else (False, 0, ev)
                    | None \<Rightarrow>
                        (True, 6 / 10,
                         ev(''naip_current_ndvi'' \<mapsto> EvNum current,
                            ''note'' \<mapsto> EvStr ''no_historical_baseline'',
                            ''tier'' \<mapsto> EvStr ''strong'')))
                 else if NDVI_OVERGROWTH_MODERATE < current then
                   (case mean_historical_ndvi n of
                      Some hist_mean \<Rightarrow>
                        if hist_mean + NDVI_OVERGROWTH_CHANGE < current then
                          (True, min ((current - hist_mean) / (3 / 10)) (8 / 10),
                           ev(''naip_current_ndvi'' \<mapsto> EvNum current,
                              ''naip_historical_mean'' \<mapsto> EvNum hist_mean,
                              ''naip_delta'' \<mapsto> EvNum (py_round (current - hist_mean) 4),
                              ''tier'' \<mapsto> EvStr ''moderate''))
                        else (False, 0, ev)
                    | None \<Rightarrow> (False, 0, ev))
                 else (False, 0, ev)))"

text \<open>The Sentinel block: \<open>sentinel_flag\<close>, \<open>sentinel_conf\<close> and its evidence.\<close>

definition sentinel_trend_check ::
  "sentinel_input option \<Rightarrow> evidence \<Rightarrow> bool \<times> rat \<times> evidence" where
  "sentinel_trend_check sentinel ev =
     (case sentinel of
        None \<Rightarrow> (False, 0, ev)
      | Some s \<Rightarrow>
          if sentinel_errors s \<noteq> [] then (False, 0, ev)
          else
            (case (trend_direction s, trend_slope s, latest_ndvi s) of
               (Some direction, Some slope, Some latest) \<Rightarrow>
                 if direction = ''increasing'' \<and> latest \<noteq> 0 \<and> NDVI_OVERGROWTH_MODERATE < latest then
                   (True, min (slope / (2 / 100)) 1,
                    ev(''sentinel_slope'' \<mapsto> EvNum slope,
                       ''sentinel_direction'' \<mapsto> EvStr direction,
                       ''sentinel_latest_ndvi'' \<mapsto> EvNum latest))
                 else (False, 0, ev)
             | _ \<Rightarrow> (False, 0, ev)))"

definition evaluate_vegetation_overgrowth ::
  "naip_input option \<Rightarrow> sentinel_input option \<Rightarrow> flag_result" where
  "evaluate_vegetation_overgrowth naip sentinel =
     (let (naip_flag, naip_conf, ev1) = naip_baseline_check naip Map.empty;
          (sentinel_flag, sentinel_conf, ev2) = sentinel_trend_check sentinel ev1
      in if naip_flag \<and> sentinel_flag then
           \<lparr>flag = True, confidence = min (max naip_conf sentinel_conf + 2 / 10) 1,
            signal_code = ''vegetation_overgrowth'',
            evidence = ev2(''agreement'' \<mapsto> EvStr ''naip_and_sentinel'')\<rparr>
         else if naip_flag then
           \<lparr>flag = True,
            confidence =
              (if ev2 ''tier'' = Some (EvStr ''strong'')
                  \<and> ev2 ''note'' = Some (EvStr ''no_historical_baseline'')
               then naip_conf else naip_conf * (8 / 10)),
            signal_code = ''vegetation_overgrowth'',
            evidence = ev2(''source'' \<mapsto> EvStr ''naip_only'')\<rparr>
         else if sentinel_flag then
           \<lparr>flag = True, confidence = sentinel_conf * (7 / 10),
            signal_code = ''vegetation_overgrowth'',
            evidence = ev2(''source'' \<mapsto> EvStr ''sentinel_only'')\<rparr>
         else
           \<lparr>flag = False, confidence = 0, signal_code = ''vegetation_overgrowth'',
            evidence = ev2\<rparr>)"

text \<open>The aerial source fired, with its confidence, as the evaluator computes them.\<close>

definition naip_flag :: "naip_input option \<Rightarrow> bool" where
  "naip_flag naip = fst (naip_baseline_check naip Map.empty)"

definition naip_conf :: "naip_input option \<Rightarrow> rat" where
  "naip_conf naip = fst (snd (naip_baseline_check naip Map.empty))"

definition sentinel_flag :: "sentinel_input option \<Rightarrow> bool" where
  "sentinel_flag sentinel = fst (sentinel_trend_check sentinel Map.empty)"

definition no_history :: "naip_input option \<Rightarrow> bool" where
  "no_history naip = (case naip of None \<Rightarrow> False | Some n \<Rightarrow> mean_historical_ndvi n = None)"

section \<open>NDVI window read (src/naip/planetary.py)\<close>

text \<open>Decimal rendering of a natural number, as an f-string prints an \<open>int\<close>.\<close>

definition digit_char :: "nat \<Rightarrow> char" where
  "digit_char d = char_of (48 + d)"

function string_of_nat :: "nat \<Rightarrow> string" where
  "string_of_nat n =
     (if n < 10 then [digit_char n] else string_of_nat (n div 10) @ [digit_char (n mod 10)])"
  by pat_completeness auto
termination
  by (relation "measure id") auto

text \<open>
  An opened raster: its height, width, band count and pixel values (band, row, column).
  NAIP pixels are unsigned integers.
\<close>

record cog_dataset =
  cog_height :: nat
  cog_width :: nat
  cog_count :: nat
  cog_pixel :: "nat \<Rightarrow> nat \<Rightarrow> nat \<Rightarrow> nat"

text \<open>
  What the raster library does inside the \<open>try\<close> block: either some call (open,
  reprojection, index, read) raises with a message, or the dataset opens and \<open>src.index\<close>
  gives the row and column of the point.
\<close>

datatype cog_access = Raises string | Opened cog_dataset int int

record ndvi_result =
  ndvi :: "rat option"
  red :: "rat option"
  nir :: "rat option"
  error :: "string option"

text \<open>
  \<open>src.read(window=Window(col_off, row_off, width, height))\<close>: one flattened array per
  band, in row-major order.
\<close>

definition window_cells :: "nat \<Rightarrow> nat \<Rightarrow> nat \<Rightarrow> nat \<Rightarrow> (nat \<times> nat) list" where
  "window_cells col_off row_off w h = List.product [row_off ..< row_off + h] [col_off ..< col_off + w]"

definition read_window :: "cog_dataset \<Rightarrow> nat \<Rightarrow> nat \<Rightarrow> nat \<Rightarrow> nat \<Rightarrow> rat list list" where
  "read_window src col_off row_off w h =
     map (\<lambda>b. map (\<lambda>(r, c). of_nat (cog_pixel src b r c)) (window_cells col_off row_off w h))
       [0 ..< cog_count src]"

definition mean :: "rat list \<Rightarrow> rat" where
  "mean xs = sum_list xs / of_nat (length xs)"

text \<open>Boolean-mask selection \<open>a[mask]\<close>.\<close>

definition mask_select :: "'a list \<Rightarrow> bool list \<Rightarrow> 'a list" where
  "mask_select xs sel = map fst (filter snd (zip xs sel))"

definition failure :: "string \<Rightarrow> ndvi_result" where
  "failure msg = \<lparr>ndvi = None, red = None, nir = None, error = Some msg\<rparr>"

definition read_ndvi_from_cog :: "cog_access \<Rightarrow> int \<Rightarrow> ndvi_result" where
  "read_ndvi_from_cog access window_size =
     (let half = window_size div 2
      in case access of
           Raises msg \<Rightarrow> failure msg
         | Opened src row col \<Rightarrow>
             (let r_start = max 0 (row - half);
                  c_start = max 0 (col - half);
                  r_end = min (int (cog_height src)) (row + half + 1);
                  c_end = min (int (cog_width src)) (col + half + 1)
              in if r_end \<le> r_start \<or> c_end \<le> c_start then failure ''pixel_out_of_bounds''
                 else
                   (let bands = read_window src (nat c_start) (nat r_start)
                                  (nat (c_end - c_start)) (nat (r_end - r_start))
                    in if length bands < 4
                       then failure (''insufficient_bands: '' @ string_of_nat (length bands))
                       else
                         (let red_px = bands ! 0;
                              nir_px = bands ! 3;
                              denom = map2 (+) nir_px red_px;
                              valid = map (\<lambda>d. 0 < d) denom
                          in if \<not> list_ex id valid
                             then \<lparr>ndvi = Some 0, red = Some (mean red_px),
                                   nir = Some (mean nir_px), error = None\<rparr>
                             else
                               (let ndvi_pixels =
                                      map (\<lambda>(v, n, r). if v then (n - r) / (n + r) else 0)
                                        (zip valid (zip nir_px red_px));
                                    ndvi_mean = mean (mask_select ndvi_pixels valid)
                                in \<lparr>ndvi = Some (py_round ndvi_mean 4), red = Some (mean red_px),
                                    nir = Some (mean nir_px), error = None\<rparr>)))))"






section \<open>Parcel store updates (src/db.py)\<close>

text \<open>
  Values in result dictionaries and in table cells. A \<open>datetime\<close> is identified with its
  ISO-8601 text. \<open>VNull\<close> is Python's \<open>None\<close> and SQL's \<open>NULL\<close>.
\<close>

datatype val = VNull | VBool bool | VInt int | VNum rat | VStr string | VDatetime string

type_synonym pydict = "string \<rightharpoonup> val"

text \<open>
  The table \<open>gis_parcels_core\<close>: a list of rows, each row giving every column a value.
  Column types are not checked on assignment.
\<close>

type_synonym dbrow = "string \<Rightarrow> val"
type_synonym table = "dbrow list"

definition getitem :: "pydict \<Rightarrow> string \<Rightarrow> py_error + val" where
  "getitem d k = (case d k of None \<Rightarrow> Inl (KeyError k) | Some v \<Rightarrow> Inr v)"

text \<open>Binding the named placeholders \<open>%(name)s\<close> of a statement: a missing key raises.\<close>

fun bind_params :: "pydict \<Rightarrow> string list \<Rightarrow> py_error + (string \<times> val) list" where
  "bind_params d [] = Inr []"
| "bind_params d (k # ks) =
     (case getitem d k of
        Inl e \<Rightarrow> Inl e
      | Inr v \<Rightarrow> (case bind_params d ks of Inl e \<Rightarrow> Inl e | Inr bs \<Rightarrow> Inr ((k, v) # bs)))"

text \<open>SQL equality is not true when either side is \<open>NULL\<close>.\<close>

definition sql_eq :: "val \<Rightarrow> val \<Rightarrow> bool" where
  "sql_eq a b = (a \<noteq> VNull \<and> b \<noteq> VNull \<and> a = b)"

text \<open>\<open>WHERE parcel_id = %(parcel_id)s AND county = %(county)s\<close>\<close>

definition where_parcel :: "val \<Rightarrow> val \<Rightarrow> dbrow \<Rightarrow> bool" where
  "where_parcel pid cty row = (sql_eq (row ''parcel_id'') pid \<and> sql_eq (row ''county'') cty)"

fun assign :: "(string \<times> val) list \<Rightarrow> dbrow \<Rightarrow> dbrow" where
  "assign [] row = row"
| "assign ((c, v) # bs) row = assign bs (row(c := v))"

text \<open>
  \<open>execute_batch(cur, sql, rows)\<close>: the statement runs once per parameter dictionary, in
  order; the first exception ends the batch.
\<close>

fun execute_batch ::
  "(table \<Rightarrow> pydict \<Rightarrow> py_error + table) \<Rightarrow> table \<Rightarrow> pydict list \<Rightarrow> py_error + table" where
  "execute_batch stmt t [] = Inr t"
| "execute_batch stmt t (p # ps) =
     (case stmt t p of Inl e \<Rightarrow> Inl e | Inr t' \<Rightarrow> execute_batch stmt t' ps)"

text \<open>\<open>results[i:i + 500] for i in range(0, len(results), 500)\<close>\<close>

function chunks_500 :: "'a list \<Rightarrow> 'a list list" where
  "chunks_500 xs = (if xs = [] then [] else take 500 xs # chunks_500 (drop 500 xs))"
  by pat_completeness auto
termination
  by (relation "measure length") auto

declare chunks_500.simps [simp del]

text \<open>
  One commit per chunk: when a chunk raises, the chunks before it stay committed and the
  exception leaves the function. The result is the committed table and either the
  exception or the returned count.
\<close>

fun commit_chunks ::
  "(table \<Rightarrow> pydict \<Rightarrow> py_error + table) \<Rightarrow> table \<Rightarrow> pydict list list \<Rightarrow> table \<times> py_error option" where
  "commit_chunks stmt t [] = (t, None)"
| "commit_chunks stmt t (c # cs) =
     (case execute_batch stmt t c of
        Inl e \<Rightarrow> (t, Some e)
      | Inr t' \<Rightarrow> commit_chunks stmt t' cs)"

subsection \<open>Pass 1: \<open>batch_update_scan_results\<close>\<close>

definition SCAN_COLUMNS :: "string list" where
  "SCAN_COLUMNS =
     [''ndvi_score'', ''ndvi_date'', ''ndvi_category'', ''fema_zone'', ''fema_risk'', ''fema_sfha'',
      ''distress_score'', ''distress_flags'', ''flag_veg'', ''flag_flood'', ''flag_structural'',
      ''flag_neglect'', ''veg_confidence'', ''flood_confidence'', ''scan_date'', ''scan_pass'',
      ''sentinel_worthy'']"

definition scan_update_sql :: "table \<Rightarrow> pydict \<Rightarrow> py_error + table" where
  "scan_update_sql t params =
     (case bind_params params SCAN_COLUMNS of
        Inl e \<Rightarrow> Inl e
      | Inr bs \<Rightarrow>
          (case getitem params ''parcel_id'' of
             Inl e \<Rightarrow> Inl e
           | Inr pid \<Rightarrow>
               (case getitem params ''county'' of
                  Inl e \<Rightarrow> Inl e
                | Inr cty \<Rightarrow>
                    Inr (map (\<lambda>row. if where_parcel pid cty row then assign bs row else row) t))))"

definition batch_update_scan_results :: "table \<Rightarrow> pydict list \<Rightarrow> table \<times> (py_error + nat)" where
  "batch_update_scan_results t results =
     (if results = [] then (t, Inr 0)
      else (case commit_chunks scan_update_sql t (chunks_500 results) of
              (t', Some e) \<Rightarrow> (t', Inl e)
            | (t', None) \<Rightarrow> (t', Inr (length results))))"

subsection \<open>Pass 1.75: \<open>batch_update_sentinel_results\<close>\<close>

definition SENTINEL_COLUMNS :: "string list" where
  "SENTINEL_COLUMNS =
     [''sentinel_trend_direction'', ''sentinel_trend_slope'', ''sentinel_latest_ndvi'',
      ''sentinel_months_data'', ''sentinel_mean_ndvi'', ''sentinel_data_source'',
      ''sentinel_chart_url'', ''sentinel_scan_date'', ''distress_score'', ''distress_flags'',
      ''flag_veg'', ''flag_flood'', ''flag_structural'', ''flag_neglect'', ''veg_confidence'',
      ''flood_confidence'']"

text \<open>
  \<open>GREATEST(COALESCE(scan_pass, 0), %(scan_pass)s)\<close> on the SMALLINT column:
  \<open>GREATEST\<close> ignores a \<open>NULL\<close> argument. A cell or parameter that is not an integer is
  a database error.
\<close>

definition greatest_coalesce0 :: "val \<Rightarrow> val \<Rightarrow> py_error + val" where
  "greatest_coalesce0 cell param =
     (case (cell, param) of
        (VInt a, VInt b) \<Rightarrow> Inr (VInt (max a b))
      | (VNull, VInt b) \<Rightarrow> Inr (VInt (max 0 b))
      | (VInt a, VNull) \<Rightarrow> Inr (VInt a)
      | (VNull, VNull) \<Rightarrow> Inr (VInt 0)
      | _ \<Rightarrow> Inl (DataError ''scan_pass''))"

fun update_rows :: "(dbrow \<Rightarrow> py_error + dbrow) \<Rightarrow> table \<Rightarrow> py_error + table" where
  "update_rows f [] = Inr []"
| "update_rows f (row # rows) =
     (case f row of
        Inl e \<Rightarrow> Inl e
      | Inr row' \<Rightarrow> (case update_rows f rows of Inl e \<Rightarrow> Inl e | Inr rows' \<Rightarrow> Inr (row' # rows')))"

definition sentinel_update_sql :: "table \<Rightarrow> pydict \<Rightarrow> py_error + table" where
  "sentinel_update_sql t params =
     (case bind_params params SENTINEL_COLUMNS of
        Inl e \<Rightarrow> Inl e
      | Inr bs \<Rightarrow>
          (case getitem params ''scan_pass'' of
             Inl e \<Rightarrow> Inl e
           | Inr new_pass \<Rightarrow>
               (case getitem params ''parcel_id'' of
                  Inl e \<Rightarrow> Inl e
                | Inr pid \<Rightarrow>
                    (case getitem params ''county'' of
                       Inl e \<Rightarrow> Inl e
                     | Inr cty \<Rightarrow>
                         update_rows
                           (\<lambda>row. if where_parcel pid cty row
                                  then (case greatest_coalesce0 (row ''scan_pass'') new_pass of
                                          Inl e \<Rightarrow> Inl e
                                        | Inr sp \<Rightarrow> Inr ((assign bs row)(''scan_pass'' := sp)))
                                  else Inr row) t))))"

definition batch_update_sentinel_results :: "table \<Rightarrow> pydict list \<Rightarrow> table \<times> (py_error + nat)" where
  "batch_update_sentinel_results t results =
     (if results = [] then (t, Inr 0)
      else (case commit_chunks sentinel_update_sql t (chunks_500 results) of
              (t', Some e) \<Rightarrow> (t', Inl e)
            | (t', None) \<Rightarrow> (t', Inr (length results))))"

text \<open>The pass level stored in a row, \<open>NULL\<close> read as 0.\<close>

definition scan_pass_of :: "dbrow \<Rightarrow> int" where
  "scan_pass_of row = (case row ''scan_pass'' of VInt n \<Rightarrow> n | _ \<Rightarrow> 0)"

text \<open>No row of the table has a lower pass level afterwards.\<close>

definition pass_le :: "table \<Rightarrow> table \<Rightarrow> bool" where
  "pass_le t t' = list_all2 (\<lambda>r r'. scan_pass_of r \<le> scan_pass_of r') t t'"

subsection \<open>Pass 2.25: \<open>batch_update_usps_results\<close>\<close>

definition USPS_TRANSIENT_ERRORS :: "string list" where
  "USPS_TRANSIENT_ERRORS = [''rate_limited'', ''http_500'', ''http_502'', ''http_503'', ''http_504'']"

text \<open>Python truthiness of a value, and \<open>dict.get\<close> with its default \<open>None\<close>.\<close>

definition truthy :: "val \<Rightarrow> bool" where
  "truthy v =
     (case v of
        VNull \<Rightarrow> False
      | VBool b \<Rightarrow> b
      | VInt n \<Rightarrow> n \<noteq> 0
      | VNum q \<Rightarrow> q \<noteq> 0
      | VStr s \<Rightarrow> s \<noteq> []
      | VDatetime s \<Rightarrow> True)"

definition dict_get :: "pydict \<Rightarrow> string \<Rightarrow> val" where
  "dict_get d k = (case d k of None \<Rightarrow> VNull | Some v \<Rightarrow> v)"

datatype usps_class = Success | Transient | Permanent

text \<open>The three-way split of the loop over \<open>results\<close>.\<close>

definition classify_usps :: "pydict \<Rightarrow> usps_class" where
  "classify_usps r =
     (let err = dict_get r ''usps_error''
      in if \<not> truthy err then Success
         else if (case err of VStr s \<Rightarrow> s \<in> set USPS_TRANSIENT_ERRORS | _ \<Rightarrow> False) then Transient
         else Permanent)"

definition USPS_COLUMNS :: "string list" where
  "USPS_COLUMNS =
     [''usps_vacant'', ''usps_dpv_confirmed'', ''usps_address'', ''usps_city'', ''usps_zip'',
      ''usps_zip4'', ''usps_business'', ''usps_carrier_route'', ''usps_address_mismatch'']"

text \<open>The three UPDATE statements; \<open>now\<close> is the value of \<open>NOW()\<close> in the transaction.\<close>

definition usps_success_sql :: "string \<Rightarrow> table \<Rightarrow> pydict \<Rightarrow> py_error + table" where
  "usps_success_sql now t params =
     (case bind_params params (USPS_COLUMNS @ [''flag_vacancy'', ''vacancy_confidence'']) of
        Inl e \<Rightarrow> Inl e
      | Inr bs \<Rightarrow>
          (case getitem params ''parcel_id'' of
             Inl e \<Rightarrow> Inl e
           | Inr pid \<Rightarrow>
               (case getitem params ''county'' of
                  Inl e \<Rightarrow> Inl e
                | Inr cty \<Rightarrow>
                    Inr (map (\<lambda>row. if where_parcel pid cty row
                                    then assign (bs @ [(''usps_check_date'', VDatetime now),
                                                       (''usps_error'', VNull)]) row
                                    else row) t))))"

definition usps_transient_sql :: "table \<Rightarrow> pydict \<Rightarrow> py_error + table" where
  "usps_transient_sql t params =
     (case bind_params params [''usps_error''] of
        Inl e \<Rightarrow> Inl e
      | Inr bs \<Rightarrow>
          (case getitem params ''parcel_id'' of
             Inl e \<Rightarrow> Inl e
           | Inr pid \<Rightarrow>
               (case getitem params ''county'' of
                  Inl e \<Rightarrow> Inl e
                | Inr cty \<Rightarrow>
                    Inr (map (\<lambda>row. if where_parcel pid cty row
                                    then assign (bs @ [(''flag_vacancy'', VBool False),
                                                       (''vacancy_confidence'', VNull)]) row
                                    else row) t))))"

definition usps_permanent_sql :: "string \<Rightarrow> table \<Rightarrow> pydict \<Rightarrow> py_error + table" where
  "usps_permanent_sql now t params =
     (case bind_params params [''usps_error''] of
        Inl e \<Rightarrow> Inl e
      | Inr bs \<Rightarrow>
          (case getitem params ''parcel_id'' of
             Inl e \<Rightarrow> Inl e
           | Inr pid \<Rightarrow>
               (case getitem params ''county'' of
                  Inl e \<Rightarrow> Inl e
                | Inr cty \<Rightarrow>
                    Inr (map (\<lambda>row. if where_parcel pid cty row
                                    then assign (bs @ [(''usps_check_date'', VDatetime now),
                                                       (''flag_vacancy'', VBool False),
                                                       (''vacancy_confidence'', VNull)]) row
                                    else row) t))))"

text \<open>
  \<open>batch_update_usps_results\<close>: one transaction, committed at the end. An exception
  leaves the function before the commit, so nothing of the batch is stored.
\<close>

definition batch_update_usps_results ::
  "string \<Rightarrow> table \<Rightarrow> pydict list \<Rightarrow> py_error + (table \<times> nat)" where
  "batch_update_usps_results now t results =
     (let success_results = filter (\<lambda>r. classify_usps r = Success) results;
          transient_results = filter (\<lambda>r. classify_usps r = Transient) results;
          permanent_results = filter (\<lambda>r. classify_usps r = Permanent) results
      in case (if success_results \<noteq> [] then execute_batch (usps_success_sql now) t success_results
               else Inr t) of
           Inl e \<Rightarrow> Inl e
         | Inr t1 \<Rightarrow>
             (case (if transient_results \<noteq> [] then execute_batch usps_transient_sql t1 transient_results
                    else Inr t1) of
                Inl e \<Rightarrow> Inl e
              | Inr t2 \<Rightarrow>
                  (case (if permanent_results \<noteq> []
                         then execute_batch (usps_permanent_sql now) t2 permanent_results
                         else Inr t2) of
                     Inl e \<Rightarrow> Inl e
                   | Inr t3 \<Rightarrow>
                       Inr (t3, length success_results + length transient_results
                                  + length permanent_results))))"

subsection \<open>Example rows\<close>

text \<open>A pass-1 result for parcel P1 and a stored row of P1 that already reached pass 2.\<close>

definition pass1_result :: pydict where
  "pass1_result = map_of
     [(''parcel_id'', VStr ''P1''), (''county'', VStr ''Gaston''),
      (''ndvi_score'', VNum (23 / 100)), (''ndvi_date'', VStr ''2022-06-15''),
      (''ndvi_category'', VStr ''minimal''), (''fema_zone'', VStr ''X''),
      (''fema_risk'', VStr ''low''), (''fema_sfha'', VBool False),
      (''distress_score'', VNum (83 / 100)), (''distress_flags'', VStr ''vegetation_neglect''),
      (''flag_veg'', VBool False), (''flag_flood'', VBool False),
      (''flag_structural'', VBool False), (''flag_neglect'', VBool True),
      (''veg_confidence'', VNum (55 / 100)), (''flood_confidence'', VNull),
      (''scan_date'', VStr ''2024-01-01 00:00:00''), (''scan_pass'', VInt 1),
      (''sentinel_worthy'', VBool True)]"

definition parcel_at_pass2 :: dbrow where
  "parcel_at_pass2 =
     (\<lambda>c. VNull)(''parcel_id'' := VStr ''P1'', ''county'' := VStr ''Gaston'', ''scan_pass'' := VInt 2)"

text \<open>
  A USPS result whose request timed out (\<open>check_address\<close> stores \<open>str(e)\<close> as the error),
  and a stored row of P1 that was never checked.
\<close>

definition timeout_result :: pydict where
  "timeout_result = map_of
     [(''parcel_id'', VStr ''P1''), (''county'', VStr ''Gaston''),
      (''usps_vacant'', VNull), (''usps_dpv_confirmed'', VNull), (''usps_address'', VNull),
      (''usps_city'', VNull), (''usps_zip'', VNull), (''usps_zip4'', VNull),
      (''usps_business'', VNull), (''usps_carrier_route'', VNull),
      (''usps_address_mismatch'', VBool False),
      (''usps_error'',
         VStr ''HTTPSConnectionPool(host='apis.usps.com', port=443): Read timed out. (read timeout=30)''),
      (''flag_vacancy'', VBool False), (''vacancy_confidence'', VNull)]"

definition unchecked_parcel :: dbrow where
  "unchecked_parcel = (\<lambda>c. VNull)(''parcel_id'' := VStr ''P1'', ''county'' := VStr ''Gaston'')"

section \<open>USPS enrichment run (scripts/batch\_usps\_enrich.py)\<close>

text \<open>
  The journal is a JSON-lines file. A line is identified with what \<open>json.loads\<close> makes of
  it: a blank line, a line that does not parse, or the dictionary it encodes
  (\<open>json.loads (json.dumps d) = d\<close> for a dictionary of nulls, booleans, numbers and strings).
\<close>

datatype jsonl_line = BlankLine | Malformed | JsonObject pydict

type_synonym filesystem = "string \<rightharpoonup> jsonl_line list"

text \<open>The run's surroundings: the flags, whether the store and the disk answer, the clock.\<close>

record run_env =
  dry_run :: bool
  flush_every :: nat
  db_up :: bool
  disk_ok :: bool
  today :: string
  now :: string

record usps_run =
  results_buffer :: "pydict list"
  checked :: nat
  vacant :: nat
  occupied :: nat
  errors :: nat
  flushed :: nat
  files :: filesystem
  parcels :: table
  shutdown_event :: bool
  slept :: nat

definition backup_file_for :: "string \<Rightarrow> string" where
  "backup_file_for day = ''/tmp/usps_backups/usps_results_'' @ day @ ''.jsonl''"

text \<open>\<open>{k: (v.isoformat() if isinstance(v, datetime) else v) for k, v in row.items()}\<close>\<close>

definition json_safe :: "pydict \<Rightarrow> pydict" where
  "json_safe row = (\<lambda>k. map_option (\<lambda>v. case v of VDatetime s \<Rightarrow> VStr s | _ \<Rightarrow> v) (row k))"

definition read_lines :: "filesystem \<Rightarrow> string \<Rightarrow> jsonl_line list" where
  "read_lines fs path = (case fs path of None \<Rightarrow> [] | Some ls \<Rightarrow> ls)"

text \<open>\<open>_save_local_backup\<close>: append one line per row; a write that fails raises.\<close>

definition save_local_backup :: "run_env \<Rightarrow> filesystem \<Rightarrow> pydict list \<Rightarrow> py_error + filesystem" where
  "save_local_backup env fs db_batch =
     (if \<not> disk_ok env then Inl OSError
      else Inr (fs(backup_file_for (today env) \<mapsto>
                  read_lines fs (backup_file_for (today env))
                    @ map (\<lambda>row. JsonObject (json_safe row)) db_batch)))"


text \<open>
  The store update as a flush or a replay sees it: \<open>get_db_connection\<close> raises when the
  store is unreachable, otherwise \<open>batch_update_usps_results\<close> runs.
\<close>

definition store_update_usps :: "run_env \<Rightarrow> table \<Rightarrow> pydict list \<Rightarrow> py_error + (table \<times> nat)" where
  "store_update_usps env t rows =
     (if db_up env then batch_update_usps_results (now env) t rows else Inl OperationalError)"


text \<open>\<open>{k: v for k, v in r.items() if not k.startswith("_")}\<close>\<close>

definition strip_internal :: "pydict \<Rightarrow> pydict" where
  "strip_internal r = (\<lambda>k. case k of [] \<Rightarrow> r k | c # cs \<Rightarrow> if c = CHR ''_'' then None else r k)"

text \<open>The dry-run print of one row: the keys it indexes and the number it formats.\<close>

definition dry_print_usps :: "pydict \<Rightarrow> py_error option" where
  "dry_print_usps r =
     (case getitem r ''usps_vacant'' of
        Inl e \<Rightarrow> Some e
      | Inr v \<Rightarrow>
          (case dict_get r ''vacancy_confidence'' of
             VStr s \<Rightarrow> if s \<noteq> [] then Some ValueError
                       else (case getitem r ''parcel_id'' of Inl e \<Rightarrow> Some e | Inr p \<Rightarrow> None)
           | _ \<Rightarrow> (case getitem r ''parcel_id'' of Inl e \<Rightarrow> Some e | Inr p \<Rightarrow> None)))"

fun first_error :: "('a \<Rightarrow> py_error option) \<Rightarrow> 'a list \<Rightarrow> py_error option" where
  "first_error f [] = None"
| "first_error f (x # xs) = (case f x of Some e \<Rightarrow> Some e | None \<Rightarrow> first_error f xs)"

text \<open>
  \<open>flush_buffer\<close> of the USPS pass. \<open>arrivals\<close> are the results other consumers append
  between the drain and the end of the flush. The result is the state afterwards and the
  exception that left the function, if any.
\<close>

definition flush_buffer_usps ::
  "run_env \<Rightarrow> pydict list \<Rightarrow> usps_run \<Rightarrow> usps_run \<times> py_error option" where
  "flush_buffer_usps env arrivals s =
     (if results_buffer s = [] then (s, None)
      else
        (let batch = results_buffer s;
             s1 = s\<lparr>results_buffer := arrivals\<rparr>
         in if dry_run env then
              (case first_error dry_print_usps batch of
                 Some e \<Rightarrow> (s1, Some e)
               | None \<Rightarrow> (s1\<lparr>flushed := flushed s1 + length batch\<rparr>, None))
            else
              (let db_batch = map strip_internal batch
               in case store_update_usps env (parcels s1) db_batch of
                    Inr (t', updated) \<Rightarrow> (s1\<lparr>parcels := t', flushed := flushed s1 + updated\<rparr>, None)
                  | Inl e \<Rightarrow>
                      (case save_local_backup env (files s1) db_batch of
                         Inl e' \<Rightarrow> (s1, Some e')
                       | Inr fs' \<Rightarrow>
                           (s1\<lparr>files := fs', results_buffer := rev batch @ results_buffer s1\<rparr>,
                            None)))))"

text \<open>
  \<open>consumer_thread\<close>. A parcel's check either returns a result row or raises. The loop
  body gives the state, the consecutive-error counter and whether the loop breaks.
\<close>

datatype check_outcome = Checked pydict | CheckRaises

definition circuit_breaker :: "run_env \<Rightarrow> usps_run \<Rightarrow> nat \<Rightarrow> usps_run \<times> nat \<times> bool" where
  "circuit_breaker env s consecutive_errors =
     (case (if flush_every env \<le> length (results_buffer s) then flush_buffer_usps env [] s
            else (s, None)) of
        (s2, Some e) \<Rightarrow> (s2, consecutive_errors + 1, False)
      | (s2, None) \<Rightarrow>
          (let (s3, ce3) = (if 10 \<le> consecutive_errors
                            then (s2\<lparr>slept := slept s2 + 300\<rparr>, 0)
                            else (s2, consecutive_errors))
           in if 20 \<le> ce3 then (s3\<lparr>shutdown_event := True\<rparr>, ce3, True)
              else (s3, ce3, False)))"

definition consumer_step :: "run_env \<Rightarrow> usps_run \<Rightarrow> nat \<Rightarrow> check_outcome \<Rightarrow> usps_run \<times> nat \<times> bool" where
  "consumer_step env s consecutive_errors outcome =
     (case outcome of
        CheckRaises \<Rightarrow> (s, consecutive_errors + 1, False)
      | Checked result \<Rightarrow>
          (let s1 = s\<lparr>results_buffer := results_buffer s @ [result], checked := checked s + 1\<rparr>
           in case getitem result ''usps_error'' of
                Inl e \<Rightarrow> (s1, consecutive_errors + 1, False)
              | Inr err \<Rightarrow>
                  if truthy err
                  then circuit_breaker env (s1\<lparr>errors := errors s1 + 1\<rparr>) (consecutive_errors + 1)
                  else
                    (case getitem result ''usps_vacant'' of
                       Inl e \<Rightarrow> (s1, 0 + 1, False)
                     | Inr v \<Rightarrow>
                         circuit_breaker env
                           (if v = VBool True then s1\<lparr>vacant := vacant s1 + 1\<rparr>
                            else if v = VBool False then s1\<lparr>occupied := occupied s1 + 1\<rparr>
                            else s1) 0)))"

fun consumer_loop :: "run_env \<Rightarrow> usps_run \<Rightarrow> nat \<Rightarrow> check_outcome list \<Rightarrow> usps_run" where
  "consumer_loop env s consecutive_errors [] = s"
| "consumer_loop env s consecutive_errors (outcome # work_queue) =
     (if shutdown_event s then s
      else (case consumer_step env s consecutive_errors outcome of
              (s', ce', True) \<Rightarrow> s'
            | (s', ce', False) \<Rightarrow> consumer_loop env s' ce' work_queue))"

definition consumer_thread :: "run_env \<Rightarrow> usps_run \<Rightarrow> check_outcome list \<Rightarrow> usps_run" where
  "consumer_thread env s work_queue = consumer_loop env s 0 work_queue"

text \<open>A check that came back with an HTTP 500, and a run that starts from nothing.\<close>

definition http_500_result :: pydict where
  "http_500_result = map_of
     [(''parcel_id'', VStr ''P1''), (''county'', VStr ''Gaston''),
      (''usps_vacant'', VNull), (''usps_error'', VStr ''http_500''),
      (''flag_vacancy'', VBool False), (''vacancy_confidence'', VNull)]"

definition fresh_run :: usps_run where
  "fresh_run = \<lparr>results_buffer = [], checked = 0, vacant = 0, occupied = 0, errors = 0,
     flushed = 0, files = Map.empty, parcels = [], shutdown_event = False, slept = 0\<rparr>"

definition dry_env :: run_env where
  "dry_env = \<lparr>dry_run = True, flush_every = 20, db_up = True, disk_ok = True,
     today = ''20240101'', now = ''2024-01-01T00:00:00''\<rparr>"


text \<open>The store is unreachable during the run and back for the replay, on the same clock.\<close>

definition outage_env :: run_env where
  "outage_env = \<lparr>dry_run = False, flush_every = 20, db_up = False, disk_ok = True,
     today = ''20240101'', now = ''2024-01-01T00:00:00''\<rparr>"

definition buffered_run :: usps_run where
  "buffered_run = fresh_run\<lparr>results_buffer := [http_500_result(''_account'' \<mapsto> VInt 1)],
     parcels := [unchecked_parcel]\<rparr>"

section \<open>Slope pass flush (scripts/batch\_historical\_slope.py, src/db.py)\<close>










section \<open>Situs parsing (src/usps/vacancy.py)\<close>

























section \<open>Conviction: results\<close>

text \<open>
  C1 (as stated, refuted): the claim says that a parcel without DS and without MC evidence but
  with a vacancy flag and no USPS error gets a non-null conviction. The code returns a null
  score for it: only the weight sum of DS and MC decides.
\<close>

theorem compute_conviction_vacancy_only_null:
  "conviction_score (compute_conviction None 0 (Some 0) (Some True) (Some (9 / 10)) None) = None
   \<and> vacancy_applies (Some True) None"
  by (simp add: conviction_score_def compute_conviction_def ds_component_def mc_component_def
      vacancy_applies_def truthy_bool_def truthy_str_def Let_def W_DS_def W_MC_def)

text \<open>
  C1 (amended): the conviction score is null exactly when the DS component is missing
  and the MC component is missing (count null or zero), whatever the vacancy flag says.
\<close>

theorem compute_conviction_null_iff:
  "conviction_score (compute_conviction ds_composite mc_raw mc_count flag_vacancy vac_conf usps_error) = None
   \<longleftrightarrow> ds_composite = None \<and> (mc_count = None \<or> mc_count = Some 0)"
  by (auto simp add: conviction_score_def compute_conviction_def Let_def ds_component_def
      mc_component_def W_DS_def W_MC_def)

section \<open>NDVI slope: results\<close>



lemma compute_ndvi_slope_history_example:
  "compute_ndvi_slope
     [(2014, 30 / 100), (2016, 33 / 100), (2018, 38 / 100), (2020, 45 / 100), (2022, 50 / 100)]
     = Inr (Some (26 / 1000))"
  by (simp add: compute_ndvi_slope_def py_truediv_def Let_def py_round_def round_half_even_def)

lemma compute_ndvi_slope_same_year_example:
  "compute_ndvi_slope [(2014, 30 / 100), (2014, 33 / 100)] = Inr (Some 0)"
  by (simp add: compute_ndvi_slope_def py_truediv_def Let_def)

section \<open>Vegetation overgrowth: results\<close>

lemma sentinel_trend_check_flag: "fst (sentinel_trend_check s ev) = sentinel_flag s"
  by (auto simp: sentinel_trend_check_def sentinel_flag_def split: option.splits)

lemma sentinel_trend_check_keeps:
  "k \<notin> {''sentinel_slope'', ''sentinel_direction'', ''sentinel_latest_ndvi''} \<Longrightarrow>
   snd (snd (sentinel_trend_check s ev)) k = ev k"
  by (auto simp: sentinel_trend_check_def split: option.splits)

lemma naip_baseline_check_note:
  "naip_flag naip \<Longrightarrow>
   (snd (snd (naip_baseline_check naip Map.empty)) ''tier'' = Some (EvStr ''strong'')
      \<and> snd (snd (naip_baseline_check naip Map.empty)) ''note'' = Some (EvStr ''no_historical_baseline''))
    = no_history naip"
  by (auto simp: naip_baseline_check_def naip_flag_def no_history_def split: option.splits if_splits)

text \<open>
  C6 (amended): when the aerial source fires alone, the final confidence is the aerial
  confidence times 0.8, except in the strong tier without a historical mean (current NDVI
  above 0.65, no history), where the aerial confidence 0.6 is kept without discount.
\<close>

theorem overgrowth_naip_only_confidence:
  assumes "naip_flag naip" and "\<not> sentinel_flag sentinel"
  shows "confidence (evaluate_vegetation_overgrowth naip sentinel) =
           (if no_history naip then naip_conf naip else naip_conf naip * (8 / 10))"
proof -
  obtain nf nc ev1 where n: "naip_baseline_check naip Map.empty = (nf, nc, ev1)"
    by (cases "naip_baseline_check naip Map.empty") auto
  obtain sf sc ev2 where s: "sentinel_trend_check sentinel ev1 = (sf, sc, ev2)"
    by (cases "sentinel_trend_check sentinel ev1") auto
  have nf: "nf" using assms(1) n by (simp add: naip_flag_def)
  have sf: "\<not> sf" using assms(2) s sentinel_trend_check_flag [of sentinel ev1] by simp
  have tier: "ev2 ''tier'' = ev1 ''tier''"
    using sentinel_trend_check_keeps [of "''tier''" sentinel ev1] s by simp
  have nt: "ev2 ''note'' = ev1 ''note''"
    using sentinel_trend_check_keeps [of "''note''" sentinel ev1] s by simp
  have nh: "(ev1 ''tier'' = Some (EvStr ''strong'')
      \<and> ev1 ''note'' = Some (EvStr ''no_historical_baseline'')) = no_history naip"
    using naip_baseline_check_note [OF assms(1)] n by simp
  show ?thesis
    using n s nf sf tier nt nh
    by (simp add: evaluate_vegetation_overgrowth_def naip_conf_def)
qed

theorem overgrowth_naip_only_confidence_witness:
  "naip_flag (Some \<lparr>naip_errors = [], current_ndvi = Some (7 / 10), mean_historical_ndvi = Some (4 / 10)\<rparr>)
   \<and> \<not> sentinel_flag None
   \<and> confidence (evaluate_vegetation_overgrowth
        (Some \<lparr>naip_errors = [], current_ndvi = Some (7 / 10), mean_historical_ndvi = Some (4 / 10)\<rparr>) None)
      = 8 / 10"
proof -
  let ?n = "Some \<lparr>naip_errors = [], current_ndvi = Some (7 / 10), mean_historical_ndvi = Some (4 / 10 :: rat)\<rparr>"
  have a: "naip_flag ?n"
    by (simp add: naip_flag_def naip_baseline_check_def NDVI_OVERGROWTH_STRONG_def
        NDVI_OVERGROWTH_CHANGE_def)
  have b: "\<not> sentinel_flag None"
    by (simp add: sentinel_flag_def sentinel_trend_check_def)
  have c: "naip_conf ?n = 1"
    by (simp add: naip_conf_def naip_baseline_check_def NDVI_OVERGROWTH_STRONG_def
        NDVI_OVERGROWTH_CHANGE_def)
  have d: "\<not> no_history ?n" by (simp add: no_history_def)
  show ?thesis using a b overgrowth_naip_only_confidence [OF a b] c d by simp
qed

text \<open>
  C6 (as stated, refuted): with current NDVI 0.7, no historical mean and no trend data the
  aerial source fires alone, and the final confidence is 0.6, not 0.6 times 0.8.
\<close>

theorem overgrowth_strong_no_history_undiscounted:
  "naip_flag (Some \<lparr>naip_errors = [], current_ndvi = Some (7 / 10), mean_historical_ndvi = None\<rparr>)
   \<and> \<not> sentinel_flag None
   \<and> confidence (evaluate_vegetation_overgrowth
        (Some \<lparr>naip_errors = [], current_ndvi = Some (7 / 10), mean_historical_ndvi = None\<rparr>) None)
      \<noteq> naip_conf (Some \<lparr>naip_errors = [], current_ndvi = Some (7 / 10), mean_historical_ndvi = None\<rparr>) * (8 / 10)"
  by (simp add: naip_flag_def naip_conf_def sentinel_flag_def sentinel_trend_check_def
      evaluate_vegetation_overgrowth_def naip_baseline_check_def NDVI_OVERGROWTH_STRONG_def)

section \<open>NDVI window read: results\<close>










lemma mask_select_map: "mask_select (map f xs) (map v xs) = map f (filter v xs)"
  by (induction xs) (simp_all add: mask_select_def)










lemma read_ndvi_from_cog_example:
  "read_ndvi_from_cog
      (Opened \<lparr>cog_height = 10, cog_width = 10, cog_count = 4,
               cog_pixel = (\<lambda>b r c. if b = 3 then 30 else 10)\<rparr> 0 0) 3
   = \<lparr>ndvi = Some (1 / 2), red = Some 10, nir = Some 30, error = None\<rparr>"
  by code_simp

section \<open>Parcel store updates: results\<close>

lemma chunks_500_short: "xs \<noteq> [] \<Longrightarrow> length xs \<le> 500 \<Longrightarrow> chunks_500 xs = [xs]"
  by (subst chunks_500.simps, subst chunks_500.simps) simp

lemma pass_le_refl: "pass_le t t"
  by (simp add: pass_le_def list_all2_refl)

lemma pass_le_trans:
  assumes "pass_le a b" and "pass_le b c"
  shows "pass_le a c"
  using assms unfolding pass_le_def list_all2_conv_all_nth
  by (metis order_trans)

lemma greatest_coalesce0_ge:
  "greatest_coalesce0 (row ''scan_pass'') p = Inr sp \<Longrightarrow>
   scan_pass_of row \<le> scan_pass_of (row' (''scan_pass'' := sp))"
  by (auto simp add: greatest_coalesce0_def scan_pass_of_def split: val.splits)

lemma update_rows_pass_le:
  assumes "\<And>row row'. f row = Inr row' \<Longrightarrow> scan_pass_of row \<le> scan_pass_of row'"
  shows "update_rows f t = Inr t' \<Longrightarrow> pass_le t t'"
proof (induction t arbitrary: t')
  case Nil
  then show ?case by (simp add: pass_le_def)
next
  case (Cons row rows)
  then show ?case
    using assms by (auto simp add: pass_le_def split: sum.splits)
qed

lemma sentinel_update_sql_pass_le:
  assumes "sentinel_update_sql t p = Inr t'"
  shows "pass_le t t'"
proof -
  from assms obtain bs new_pass pid cty where
    u: "update_rows
          (\<lambda>row. if where_parcel pid cty row
                 then (case greatest_coalesce0 (row ''scan_pass'') new_pass of
                         Inl e \<Rightarrow> Inl e
                       | Inr sp \<Rightarrow> Inr ((assign bs row)(''scan_pass'' := sp)))
                 else Inr row) t = Inr t'"
    by (auto simp add: sentinel_update_sql_def split: sum.splits)
  show ?thesis
    by (rule update_rows_pass_le [OF _ u])
      (auto split: if_splits sum.splits dest: greatest_coalesce0_ge)
qed

lemma execute_batch_pass_le:
  assumes "\<And>t p t'. stmt t p = Inr t' \<Longrightarrow> pass_le t t'"
  shows "execute_batch stmt t ps = Inr t' \<Longrightarrow> pass_le t t'"
proof (induction ps arbitrary: t)
  case Nil
  then show ?case by (simp add: pass_le_refl)
next
  case (Cons p ps)
  from Cons.prems obtain t1 where s: "stmt t p = Inr t1" and r: "execute_batch stmt t1 ps = Inr t'"
    by (auto split: sum.splits)
  have "pass_le t t1" using assms s by blast
  moreover have "pass_le t1 t'" using Cons.IH r by blast
  ultimately show ?case by (rule pass_le_trans)
qed

lemma commit_chunks_pass_le:
  assumes "\<And>t p t'. stmt t p = Inr t' \<Longrightarrow> pass_le t t'"
  shows "pass_le t (fst (commit_chunks stmt t cs))"
proof (induction cs arbitrary: t)
  case Nil
  then show ?case by (simp add: pass_le_refl)
next
  case (Cons c cs)
  show ?case
  proof (cases "execute_batch stmt t c")
    case (Inl e)
    then show ?thesis by (simp add: pass_le_refl)
  next
    case (Inr t1)
    then have "pass_le t t1" using execute_batch_pass_le [of stmt t c t1] assms by blast
    then show ?thesis using Inr Cons.IH [of t1] by (auto intro: pass_le_trans)
  qed
qed

text \<open>
  The sentinel update is monotone in \<open>scan_pass\<close>, whatever the batch and whether or not a
  chunk raises.
\<close>

lemma batch_update_sentinel_results_monotone:
  "pass_le t (fst (batch_update_sentinel_results t results))"
  using commit_chunks_pass_le [of sentinel_update_sql t "chunks_500 results", OF sentinel_update_sql_pass_le]
  by (auto simp add: batch_update_sentinel_results_def pass_le_refl split: prod.splits option.splits)


text \<open>
  C4 (failing input): the pass-1 update writes \<open>scan_pass\<close> as given. A stored row at pass 2
  that receives a pass-1 result ends at pass 1, where the claim requires the maximum of the
  two.
\<close>

theorem batch_update_scan_results_lowers_scan_pass:
  "scan_pass_of parcel_at_pass2 = 2
   \<and> map scan_pass_of (fst (batch_update_scan_results [parcel_at_pass2] [pass1_result])) = [1]
   \<and> snd (batch_update_scan_results [parcel_at_pass2] [pass1_result]) = Inr 1"
  by (simp add: batch_update_scan_results_def chunks_500_short scan_update_sql_def
      SCAN_COLUMNS_def getitem_def pass1_result_def parcel_at_pass2_def where_parcel_def
      sql_eq_def scan_pass_of_def)

lemma classify_usps_transient_iff:
  "classify_usps r = Transient \<longleftrightarrow>
     (\<exists>s. r ''usps_error'' = Some (VStr s) \<and> s \<in> set USPS_TRANSIENT_ERRORS)"
  by (auto simp add: classify_usps_def dict_get_def truthy_def USPS_TRANSIENT_ERRORS_def Let_def
      split: option.splits val.splits)

text \<open>
  C3 (failing input): a check that failed with a network timeout carries the exception text as
  its error. The text is not one of the five transient tags, so the row is classified permanent
  and \<open>usps_check_date\<close> is set.
\<close>

theorem batch_update_usps_timeout_is_permanent:
  "classify_usps timeout_result = Permanent
   \<and> (case batch_update_usps_results ''2024-01-01T00:00:00'' [unchecked_parcel] [timeout_result] of
        Inl e \<Rightarrow> False
      | Inr (t, n) \<Rightarrow> map (\<lambda>row. row ''usps_check_date'') t = [VDatetime ''2024-01-01T00:00:00''])"
  by (simp add: batch_update_usps_results_def classify_usps_def dict_get_def truthy_def
      USPS_TRANSIENT_ERRORS_def timeout_result_def unchecked_parcel_def usps_permanent_sql_def
      getitem_def where_parcel_def sql_eq_def Let_def)

lemma batch_update_usps_success_example:
  "(case batch_update_usps_results ''2024-01-01T00:00:00'' [unchecked_parcel]
           [timeout_result(''usps_error'' \<mapsto> VNull, ''usps_vacant'' \<mapsto> VBool True)] of
      Inl e \<Rightarrow> False
    | Inr (t, n) \<Rightarrow>
        map (\<lambda>row. (row ''usps_vacant'', row ''usps_error'', row ''usps_check_date'')) t
          = [(VBool True, VNull, VDatetime ''2024-01-01T00:00:00'')] \<and> n = 1)"
  by (simp add: batch_update_usps_results_def classify_usps_def dict_get_def truthy_def
      timeout_result_def unchecked_parcel_def usps_success_sql_def USPS_COLUMNS_def
      getitem_def where_parcel_def sql_eq_def Let_def)

section \<open>USPS enrichment run: results\<close>

lemma flush_buffer_usps_shutdown:
  "shutdown_event (fst (flush_buffer_usps env arrivals s)) = shutdown_event s"
  by (auto simp add: flush_buffer_usps_def Let_def split: option.splits sum.splits prod.splits)

lemma circuit_breaker_no_abort:
  "circuit_breaker env s ce = (s', ce', brk) \<Longrightarrow>
     \<not> brk \<and> shutdown_event s' = shutdown_event s \<and> (ce' \<le> ce + 1)"
  using flush_buffer_usps_shutdown [of env "[]" s]
  by (auto simp add: circuit_breaker_def Let_def split: if_splits prod.splits option.splits)

lemma consumer_step_no_abort:
  "consumer_step env s ce outcome = (s', ce', brk) \<Longrightarrow>
     \<not> brk \<and> shutdown_event s' = shutdown_event s"
  by (auto simp add: consumer_step_def Let_def
      split: check_outcome.splits sum.splits if_splits dest!: circuit_breaker_no_abort)

text \<open>
  The consumer never sets the shutdown flag: the counter is reset to 0 at 10, before the
  test against 20, and the exception path increments it without any test.
\<close>

lemma consumer_loop_never_sets_shutdown:
  "shutdown_event (consumer_loop env s ce work_queue) = shutdown_event s"
proof (induction work_queue arbitrary: s ce)
  case Nil
  then show ?case by simp
next
  case (Cons outcome work_queue)
  obtain s' ce' brk where st: "consumer_step env s ce outcome = (s', ce', brk)"
    by (cases "consumer_step env s ce outcome") auto
  from consumer_step_no_abort [OF st] have "\<not> brk" and "shutdown_event s' = shutdown_event s"
    by auto
  then show ?case using st Cons.IH [of s' ce'] by simp
qed

text \<open>
  C2 (failing input): twenty checks in a row come back with an error. The consumer pauses
  twice (600 seconds) and the shutdown flag stays unset.
\<close>

theorem consumer_thread_20_errors_no_shutdown:
  "shutdown_event (consumer_thread dry_env fresh_run (replicate 20 (Checked http_500_result))) = False
   \<and> errors (consumer_thread dry_env fresh_run (replicate 20 (Checked http_500_result))) = 20
   \<and> slept (consumer_thread dry_env fresh_run (replicate 20 (Checked http_500_result))) = 600"
  by code_simp

lemma consumer_thread_20_exceptions_no_shutdown:
  "shutdown_event (consumer_thread dry_env fresh_run (replicate 20 CheckRaises)) = False
   \<and> slept (consumer_thread dry_env fresh_run (replicate 20 CheckRaises)) = 0"
  by code_simp





lemma batch_update_usps_results_empty: "batch_update_usps_results n t [] = Inr (t, 0)"
  by (simp add: batch_update_usps_results_def)




lemma replay_example_row:
  "map (\<lambda>row. (row ''usps_error'', row ''usps_check_date''))
     (parcels (fst (flush_buffer_usps (outage_env\<lparr>db_up := True\<rparr>) [] buffered_run)))
   = [(VStr ''http_500'', VNull)]"
  by (simp add: flush_buffer_usps_def buffered_run_def fresh_run_def outage_env_def
      store_update_usps_def batch_update_usps_results_def classify_usps_def dict_get_def
      truthy_def USPS_TRANSIENT_ERRORS_def strip_internal_def http_500_result_def
      usps_transient_sql_def getitem_def where_parcel_def sql_eq_def unchecked_parcel_def Let_def)

section \<open>Flush failure: results\<close>




text \<open>
  A flush that returns has either written the whole batch to the store or put it back
  into the buffer.
\<close>

lemma flush_buffer_usps_stored_or_buffered:
  assumes "\<not> dry_run env" and "flush_buffer_usps env arrivals s = (s', None)"
  shows "(\<exists>n. store_update_usps env (parcels s) (map strip_internal (results_buffer s))
              = Inr (parcels s', n))
         \<or> mset (results_buffer s) \<subseteq># mset (results_buffer s')"
  using assms
  by (auto simp add: flush_buffer_usps_def Let_def split: if_splits sum.splits prod.splits)

text \<open>When the journal write fails too, the flush raises and the drained batch is gone.\<close>

lemma flush_buffer_usps_disk_failure:
  assumes "\<not> dry_run env" and "results_buffer s \<noteq> []" and "\<not> db_up env" and "\<not> disk_ok env"
  shows "flush_buffer_usps env arrivals s = (s\<lparr>results_buffer := arrivals\<rparr>, Some OSError)"
  using assms
  by (simp add: flush_buffer_usps_def Let_def store_update_usps_def save_local_backup_def)


section \<open>Situs parsing: results\<close>


























end
